theory Spec2Isabelle
  imports Complex_Main
begin

section \<open>JavaScript numbers\<close>

text \<open>
  The scoring helpers of \<^verbatim>\<open>ForecastMetricsV3.jsx\<close> compute on JavaScript numbers.
  A number is modelled as a finite value, one of the two infinities, or NaN. Every
  finite double is a rational, so finite values are rationals; the arithmetic on them
  is exact (the rounding of IEEE-754 operations and overflow to an infinity are not
  modelled), and the negative zero is identified with zero. The special values follow
  the IEEE-754 rules that JavaScript uses: NaN is absorbing and compares false with
  everything, \<open>Infinity - Infinity\<close> and \<open>0 * Infinity\<close> are NaN, and a division of a
  non-zero finite number by zero is an infinity.
\<close>

datatype jsnum = Num rat | Infinity | NegInfinity | NaN

fun is_zero :: "jsnum \<Rightarrow> bool" where
  "is_zero (Num a) = (a = 0)"
| "is_zero v = False"

fun is_negative :: "jsnum \<Rightarrow> bool" where
  "is_negative (Num a) = (a < 0)"
| "is_negative NegInfinity = True"
| "is_negative v = False"

instantiation jsnum :: "{plus, uminus, minus, times, inverse, abs, ord}"
begin

fun plus_jsnum :: "jsnum \<Rightarrow> jsnum \<Rightarrow> jsnum" where
  "Num a + Num b = Num (a + b)"
| "NaN + y = NaN"
| "x + NaN = NaN"
| "Infinity + NegInfinity = NaN"
| "NegInfinity + Infinity = NaN"
| "Infinity + y = Infinity"
| "x + Infinity = Infinity"
| "NegInfinity + y = NegInfinity"
| "x + NegInfinity = NegInfinity"

fun uminus_jsnum :: "jsnum \<Rightarrow> jsnum" where
  "- Num a = Num (- a)"
| "- Infinity = NegInfinity"
| "- NegInfinity = Infinity"
| "- NaN = NaN"

definition minus_jsnum_def: "x - y = (x::jsnum) + (- y)"

fun times_jsnum :: "jsnum \<Rightarrow> jsnum \<Rightarrow> jsnum" where
  "Num a * Num b = Num (a * b)"
| "NaN * y = NaN"
| "x * NaN = NaN"
| "x * y = (if is_zero x \<or> is_zero y then NaN
            else if is_negative x = is_negative y then Infinity else NegInfinity)"

fun divide_jsnum :: "jsnum \<Rightarrow> jsnum \<Rightarrow> jsnum" where
  "divide_jsnum (Num a) (Num b) =
     (if b = 0 then (if a = 0 then NaN else if a < 0 then NegInfinity else Infinity)
      else Num (a / b))"
| "divide_jsnum NaN y = NaN"
| "divide_jsnum x NaN = NaN"
| "divide_jsnum (Num a) y = Num 0"
| "divide_jsnum x (Num b) = (if is_negative x = (b < 0) then Infinity else NegInfinity)"
| "divide_jsnum x y = NaN"

definition inverse_jsnum_def: "inverse (x::jsnum) = divide (Num 1) x"

fun abs_jsnum :: "jsnum \<Rightarrow> jsnum" where
  "\<bar>Num a\<bar> = Num \<bar>a\<bar>"
| "\<bar>Infinity\<bar> = Infinity"
| "\<bar>NegInfinity\<bar> = Infinity"
| "\<bar>NaN\<bar> = NaN"

fun less_jsnum :: "jsnum \<Rightarrow> jsnum \<Rightarrow> bool" where
  "(Num a < Num b) = (a < b)"
| "(NaN < y) = False"
| "(x < NaN) = False"
| "(x < NegInfinity) = False"
| "(Infinity < y) = False"
| "((x::jsnum) < y) = True"

fun less_eq_jsnum :: "jsnum \<Rightarrow> jsnum \<Rightarrow> bool" where
  "(Num a \<le> Num b) = (a \<le> b)"
| "(NaN \<le> y) = False"
| "(x \<le> NaN) = False"
| "((x::jsnum) \<le> y) = (\<not> y < x)"

instance ..

end

text \<open>
  \<^verbatim>\<open>x.toFixed(f)\<close> returns a string: the decimal numeral with \<open>f\<close> fraction digits
  nearest to \<open>x\<close>, the larger magnitude on a tie (ECMAScript: ``let n be an integer for
  which \<open>n / 10^f - x\<close> is as close to zero as possible; if there are two such n, pick the
  larger''), computed on the absolute value with the sign put in front; from \<open>10^21\<close> on
  it is the number's own string, as for an infinity and NaN. The page reads these
  strings back with \<^verbatim>\<open>Number(...)\<close>; the model keeps the number that the string denotes.
\<close>

definition toFixed_rat :: "rat \<Rightarrow> nat \<Rightarrow> rat" where
  "toFixed_rat x f =
     (if 10 ^ 21 \<le> \<bar>x\<bar> then x
      else sgn x * (of_int \<lfloor>\<bar>x\<bar> * 10 ^ f + 1 / 2\<rfloor> / 10 ^ f))"

fun toFixed :: "jsnum \<Rightarrow> nat \<Rightarrow> jsnum" where
  "toFixed (Num x) f = Num (toFixed_rat x f)"
| "toFixed v f = v"



section \<open>Data model\<close>

text \<open>An element of the \<^verbatim>\<open>intervals\<close> array: \<^verbatim>\<open>{ lower, upper, alpha, name }\<close>.\<close>

record interval =
  lower :: jsnum
  upper :: jsnum
  alpha :: jsnum
  name :: string

text \<open>The object returned by \<^verbatim>\<open>calculateWIS\<close>.\<close>

record WISResult =
  total :: jsnum
  dispersion :: jsnum
  overprediction :: jsnum
  underprediction :: jsnum
  absError :: jsnum

text \<open>
  The object returned by \<^verbatim>\<open>calculatePIS\<close>. Its field \<^verbatim>\<open>total\<close> is named
  \<open>total_pis\<close> here, apart from the field of \<open>WISResult\<close>.
\<close>

record PISResult =
  width :: jsnum
  penalty :: jsnum
  total_pis :: jsnum
  outsideLower :: bool
  outsideUpper :: bool
  inside :: bool


section \<open>The WIS calculation\<close>

text \<open>
  The body of the \<^verbatim>\<open>forEach\<close> callback of \<^verbatim>\<open>calculateWIS\<close>, on the three
  variables \<^verbatim>\<open>dispersion\<close>, \<^verbatim>\<open>overprediction\<close>, \<^verbatim>\<open>underprediction\<close> (in this
  order) that it updates:
  \<^verbatim>\<open>
    dispersion += (upper - lower) * (alpha / 2);
    if (observed < lower) underprediction += (lower - observed) * alpha;
    if (observed > upper) overprediction += (observed - upper) * alpha;
  \<close>
\<close>

definition forEach_body :: "jsnum \<Rightarrow> jsnum \<times> jsnum \<times> jsnum \<Rightarrow> interval \<Rightarrow> jsnum \<times> jsnum \<times> jsnum" where
  "forEach_body observed acc iv =
     (case acc of (d, ov, un) \<Rightarrow>
        (d + (upper iv - lower iv) * (alpha iv / Num 2),
         if observed > upper iv then ov + (observed - upper iv) * alpha iv else ov,
         if observed < lower iv then un + (lower iv - observed) * alpha iv else un))"

text \<open>The loop: the three variables start at 0 and the intervals are visited in order.\<close>

definition wis_loop :: "jsnum \<Rightarrow> interval list \<Rightarrow> jsnum \<times> jsnum \<times> jsnum" where
  "wis_loop observed intervals = foldl (forEach_body observed) (Num 0, Num 0, Num 0) intervals"

definition calculateWIS :: "jsnum \<Rightarrow> jsnum \<Rightarrow> interval list \<Rightarrow> WISResult" where
  "calculateWIS observed median intervals =
     (case wis_loop observed intervals of (d, ov, un) \<Rightarrow>
        let absErr = \<bar>observed - median\<bar> in
        \<lparr> total = toFixed (d + ov + un + absErr * Num (1 / 2)) 1,
          dispersion = toFixed d 1,
          overprediction = toFixed ov 1,
          underprediction = toFixed un 1,
          absError = toFixed absErr 1 \<rparr>)"

section \<open>The PIS calculation\<close>

text \<open>
  \<^verbatim>\<open>calculatePIS(observed, lower, upper, alpha)\<close>; the parameters \<^verbatim>\<open>lower\<close>,
  \<^verbatim>\<open>upper\<close> and \<^verbatim>\<open>alpha\<close> are \<open>lo\<close>, \<open>hi\<close> and \<open>a\<close> here.
\<close>

definition calculatePIS :: "jsnum \<Rightarrow> jsnum \<Rightarrow> jsnum \<Rightarrow> jsnum \<Rightarrow> PISResult" where
  "calculatePIS observed lo hi a =
     (let w = hi - lo;
          p = (if observed < lo then (Num 2 / a) * (lo - observed)
               else if observed > hi then (Num 2 / a) * (observed - hi)
               else Num 0)
      in \<lparr> width = toFixed w 1,
           penalty = toFixed p 1,
           total_pis = toFixed (w + p) 1,
           outsideLower = (observed < lo),
           outsideUpper = (observed > hi),
           inside = (observed \<ge> lo \<and> observed \<le> hi) \<rparr>)"

section \<open>The formulas of the specification\<close>

text \<open>
  The specification describes the three accumulated quantities as sums over the
  intervals. The sum of a list of numbers, and the term that an interval adds to each
  quantity:
\<close>

primrec sum_over :: "jsnum list \<Rightarrow> jsnum" where
  "sum_over [] = Num 0"
| "sum_over (x # xs) = x + sum_over xs"

definition dispersion_term :: "interval \<Rightarrow> jsnum" where
  "dispersion_term iv = (upper iv - lower iv) * (alpha iv / Num 2)"

definition underprediction_term :: "jsnum \<Rightarrow> interval \<Rightarrow> jsnum" where
  "underprediction_term observed iv = (lower iv - observed) * alpha iv"

definition overprediction_term :: "jsnum \<Rightarrow> interval \<Rightarrow> jsnum" where
  "overprediction_term observed iv = (observed - upper iv) * alpha iv"




section \<open>Coverage\<close>

text \<open>\<^verbatim>\<open>hits.filter(Boolean).length\<close> on an array of booleans.\<close>

definition hitCount :: "bool list \<Rightarrow> nat" where
  "hitCount hits = length (filter (\<lambda>h. h) hits)"

text \<open>\<^verbatim>\<open>CoverageBar\<close>: \<^verbatim>\<open>coverage = (hitCount / total) * 100\<close> with \<^verbatim>\<open>total = hits.length\<close>.\<close>

definition coverage :: "bool list \<Rightarrow> jsnum" where
  "coverage hits = (Num (of_nat (hitCount hits)) / Num (of_nat (length hits))) * Num 100"

text \<open>
  \<^verbatim>\<open>CoverageModule\<close>:
  \<^verbatim>\<open>cov95 = ((hits95.filter(Boolean).length / sampleSize) * 100).toFixed(0)\<close>.
\<close>

definition cov :: "bool list \<Rightarrow> jsnum \<Rightarrow> jsnum" where
  "cov hits sampleSize = toFixed ((Num (of_nat (hitCount hits)) / sampleSize) * Num 100) 0"

section \<open>Arithmetic of the number model\<close>

text \<open>The floor of a quotient of numerals, for evaluating \<open>toFixed\<close> on concrete inputs.\<close>

lemma floor_rat_divide_numeral:
  "\<lfloor>numeral a / numeral b :: rat\<rfloor> = numeral a div numeral b"
proof -
  have "\<lfloor>rat_of_int (numeral a) / rat_of_int (numeral b)\<rfloor> = numeral a div numeral b"
    by (rule floor_divide_of_int_eq)
  then show ?thesis by simp
qed

lemma floor_rat_one_divide_numeral:
  "\<lfloor>1 / numeral b :: rat\<rfloor> = 1 div numeral b"
proof -
  have "\<lfloor>rat_of_int 1 / rat_of_int (numeral b)\<rfloor> = 1 div numeral b"
    by (rule floor_divide_of_int_eq)
  then show ?thesis by simp
qed

lemmas js_eval = toFixed_rat_def minus_jsnum_def floor_rat_divide_numeral
  floor_rat_one_divide_numeral

lemma toFixed_rat_zero: "toFixed_rat 0 f = 0"
  by (simp add: toFixed_rat_def)

text \<open>
  With exact finite values, addition is associative and 0 is neutral, also on the
  special values.
\<close>

lemma plus_jsnum_assoc: "(x + y) + z = x + (y + (z::jsnum))"
  by (cases x; cases y; cases z) simp_all

lemma plus_jsnum_zero_right: "x + Num 0 = (x::jsnum)"
  by (cases x) simp_all

lemma plus_jsnum_zero_left: "Num 0 + x = (x::jsnum)"
  by (cases x) simp_all

lemma sum_over_Num: "sum_over (map Num xs) = Num (sum_list xs)"
  by (induction xs) simp_all

section \<open>The loop of calculateWIS as three sums\<close>

lemma foldl_forEach_body:
  "foldl (forEach_body ob) (d, ov, un) ivs =
     (d + sum_over (map dispersion_term ivs),
      ov + sum_over (map (overprediction_term ob) (filter (\<lambda>iv. ob > upper iv) ivs)),
      un + sum_over (map (underprediction_term ob) (filter (\<lambda>iv. ob < lower iv) ivs)))"
proof (induction ivs arbitrary: d ov un)
  case Nil
  show ?case by (simp add: plus_jsnum_zero_right)
next
  case (Cons iv ivs)
  have step: "forEach_body ob (d, ov, un) iv =
      (d + dispersion_term iv,
       if ob > upper iv then ov + overprediction_term ob iv else ov,
       if ob < lower iv then un + underprediction_term ob iv else un)"
    by (simp add: forEach_body_def dispersion_term_def overprediction_term_def
        underprediction_term_def)
  show ?case
    by (simp add: step Cons.IH plus_jsnum_assoc)
qed

lemma wis_loop_sums:
  "wis_loop ob ivs =
     (sum_over (map dispersion_term ivs),
      sum_over (map (overprediction_term ob) (filter (\<lambda>iv. ob > upper iv) ivs)),
      sum_over (map (underprediction_term ob) (filter (\<lambda>iv. ob < lower iv) ivs)))"
  by (simp add: wis_loop_def foldl_forEach_body plus_jsnum_zero_left)

section \<open>Comparisons\<close>

lemma less_jsnum_irrefl: "\<not> (x::jsnum) < x"
  by (cases x) simp_all

lemma less_eq_jsnum_not_less: "(x::jsnum) \<le> y \<Longrightarrow> \<not> y < x"
  by (cases x; cases y) simp_all

lemma boundary_no_branch:
  assumes "lower iv \<le> upper iv" and "lower iv = ob \<or> upper iv = ob"
  shows "\<not> ob > upper iv" and "\<not> ob < lower iv"
  using assms less_eq_jsnum_not_less [of "lower iv" "upper iv"] less_jsnum_irrefl [of ob]
  by auto

text \<open>
  NaN compares false with every number, so with a NaN observed value none of the three
  flags of \<open>calculatePIS\<close> is set.
\<close>

lemma calculatePIS_NaN_flags:
  "\<not> outsideLower (calculatePIS NaN lo hi a) \<and> \<not> outsideUpper (calculatePIS NaN lo hi a)
   \<and> \<not> inside (calculatePIS NaN lo hi a)"
  by (cases lo; cases hi) (simp_all add: calculatePIS_def Let_def)

section \<open>The loop on finite inputs\<close>













section \<open>Rounding to a fixed number of decimals\<close>






section \<open>Claims\<close>






text \<open>
  C3. For every finite observed value and every \<open>lower \<le> upper\<close>, exactly one of the
  flags \<open>outsideLower\<close>, \<open>outsideUpper\<close>, \<open>inside\<close> of the result of \<open>calculatePIS\<close> is
  true.
\<close>

theorem calculatePIS_flags_partition:
  "lo \<le> hi \<Longrightarrow>
   (outsideLower (calculatePIS (Num x) lo hi a)
      \<and> \<not> outsideUpper (calculatePIS (Num x) lo hi a)
      \<and> \<not> inside (calculatePIS (Num x) lo hi a))
   \<or> (\<not> outsideLower (calculatePIS (Num x) lo hi a)
      \<and> outsideUpper (calculatePIS (Num x) lo hi a)
      \<and> \<not> inside (calculatePIS (Num x) lo hi a))
   \<or> (\<not> outsideLower (calculatePIS (Num x) lo hi a)
      \<and> \<not> outsideUpper (calculatePIS (Num x) lo hi a)
      \<and> inside (calculatePIS (Num x) lo hi a))"
  by (cases lo; cases hi) (auto simp add: calculatePIS_def Let_def)

theorem calculatePIS_flags_partition_witness:
  "Num 1600 \<le> Num 2400
   \<and> outsideLower (calculatePIS (Num 1500) (Num 1600) (Num 2400) (Num (5 / 100)))
   \<and> \<not> outsideUpper (calculatePIS (Num 1500) (Num 1600) (Num 2400) (Num (5 / 100)))
   \<and> \<not> inside (calculatePIS (Num 1500) (Num 1600) (Num 2400) (Num (5 / 100)))"
  using calculatePIS_flags_partition [of "Num 1600" "Num 2400" 1500 "Num (5 / 100)"]
  by (simp add: calculatePIS_def Let_def)










text \<open>
  C7. For every \<open>lower \<le> upper\<close> and \<open>alpha > 0\<close>, \<open>calculatePIS\<close> with the observed value
  equal to the lower bound, and with it equal to the upper bound, returns \<open>inside\<close> true,
  \<open>outsideLower\<close> and \<open>outsideUpper\<close> false, and penalty 0.
\<close>

theorem calculatePIS_boundary_inside:
  "lo \<le> hi \<Longrightarrow> Num 0 < a \<Longrightarrow>
   inside (calculatePIS lo lo hi a) \<and> \<not> outsideLower (calculatePIS lo lo hi a)
   \<and> \<not> outsideUpper (calculatePIS lo lo hi a) \<and> penalty (calculatePIS lo lo hi a) = Num 0
   \<and> inside (calculatePIS hi lo hi a) \<and> \<not> outsideLower (calculatePIS hi lo hi a)
   \<and> \<not> outsideUpper (calculatePIS hi lo hi a) \<and> penalty (calculatePIS hi lo hi a) = Num 0"
  by (cases lo; cases hi) (simp_all add: calculatePIS_def Let_def toFixed_rat_zero)

theorem calculatePIS_boundary_inside_witness:
  "Num 1600 \<le> Num 2400 \<and> Num 0 < Num (1 / 2)
   \<and> inside (calculatePIS (Num 1600) (Num 1600) (Num 2400) (Num (1 / 2)))
   \<and> penalty (calculatePIS (Num 1600) (Num 1600) (Num 2400) (Num (1 / 2))) = Num 0
   \<and> inside (calculatePIS (Num 2400) (Num 1600) (Num 2400) (Num (1 / 2)))
   \<and> penalty (calculatePIS (Num 2400) (Num 1600) (Num 2400) (Num (1 / 2))) = Num 0"
  using calculatePIS_boundary_inside [of "Num 1600" "Num 2400" "Num (1 / 2)"]
  by simp

text \<open>
  C8. For a list of 20 hit/miss flags of which exactly 19 are hits, the coverage
  (number of hits divided by number of forecasts, times 100) is 95, in \<open>CoverageBar\<close>
  and, with the sample size 20, in \<open>CoverageModule\<close>.
\<close>

theorem coverage_19_of_20:
  "length hits = 20 \<Longrightarrow> hitCount hits = 19 \<Longrightarrow>
   coverage hits = Num 95 \<and> cov hits (Num 20) = Num 95"
  by (simp add: coverage_def cov_def js_eval)

theorem coverage_19_of_20_witness:
  "length (replicate 19 True @ [False]) = 20 \<and> hitCount (replicate 19 True @ [False]) = 19
   \<and> coverage (replicate 19 True @ [False]) = Num 95
   \<and> cov (replicate 19 True @ [False]) (Num 20) = Num 95"
  using coverage_19_of_20 [of "replicate 19 True @ [False]"]
  by (simp add: hitCount_def)

text \<open>
  C9, as stated, fails for an interval with \<open>lower > upper\<close>: in
  \<^verbatim>\<open>calculateWIS(5, 5, [{lower: 5, upper: 3, alpha: 1}])\<close> the lower bound equals the
  observed value, and the interval adds \<open>(5 - 3) * 1 = 2\<close> to the overprediction.
\<close>

theorem boundary_interval_counterexample:
  "lower \<lparr>lower = Num 5, upper = Num 3, alpha = Num 1, name = ''x''\<rparr> = Num 5
   \<and> overprediction (calculateWIS (Num 5) (Num 5)
        [\<lparr>lower = Num 5, upper = Num 3, alpha = Num 1, name = ''x''\<rparr>]) = Num 2
   \<and> overprediction (calculateWIS (Num 5) (Num 5) []) = Num 0"
  by (simp add: calculateWIS_def wis_loop_def forEach_body_def Let_def js_eval)

text \<open>
  C9, amended. For every observed value and every interval with \<open>lower \<le> upper\<close> whose
  lower bound or upper bound equals the observed value, the loop body leaves the
  overprediction and underprediction accumulators as they are, and the accumulators
  after the loop are those of the list without that interval.
\<close>

theorem boundary_interval_no_penalty:
  "lower iv \<le> upper iv \<Longrightarrow> lower iv = ob \<or> upper iv = ob \<Longrightarrow>
   snd (forEach_body ob (d, ov, un) iv) = (ov, un)
   \<and> snd (wis_loop ob (xs @ iv # ys)) = snd (wis_loop ob (xs @ ys))"
  using boundary_no_branch [of iv ob]
  by (simp add: forEach_body_def wis_loop_sums)

theorem boundary_interval_no_penalty_witness:
  "lower \<lparr>lower = Num 1600, upper = Num 2400, alpha = Num (5 / 100), name = ''95%''\<rparr>
     \<le> upper \<lparr>lower = Num 1600, upper = Num 2400, alpha = Num (5 / 100), name = ''95%''\<rparr>
   \<and> snd (wis_loop (Num 1600)
        [\<lparr>lower = Num 1600, upper = Num 2400, alpha = Num (5 / 100), name = ''95%''\<rparr>])
       = (Num 0, Num 0)"
  using boundary_interval_no_penalty [of
      "\<lparr>lower = Num 1600, upper = Num 2400, alpha = Num (5 / 100), name = ''95%''\<rparr>"
      "Num 1600" "Num 0" "Num 0" "Num 0" "[]" "[]"]
  by (simp add: wis_loop_def)


end
